theory Spec2Isabelle
  imports Complex_Main "HOL-Library.Log_Nat"
begin

section \<open>Numbers and request values\<close>

text \<open>
  A JavaScript number is a double: a rational that a double can hold, or one of the
  special values. Division and multiplication round their exact result to the nearest
  double, a tie to the even significand; a result of magnitude \<open>2^1024\<close> or more is an
  infinity, and below \<open>2^-1022\<close> the spacing stays \<open>2^-1074\<close>. The sign of zero is not
  modelled.
\<close>

datatype number = Num rat | NaN | PosInf | NegInf

text \<open>The nearest integer, a tie to the even one.\<close>

definition round_even :: "rat \<Rightarrow> int" where
  "round_even x =
     (let f = \<lfloor>x\<rfloor>; d = x - of_int f
      in if d < 1 / 2 then f else if 1 / 2 < d then f + 1 else if even f then f else f + 1)"

text \<open>For a positive \<open>x\<close>, the \<open>k\<close> with \<open>2^k \<le> x < 2^(k+1)\<close>, from the bit lengths of
  numerator and denominator.\<close>

definition binade :: "rat \<Rightarrow> int" where
  "binade x =
     (let d = bitlen (fst (quotient_of x)) - bitlen (snd (quotient_of x))
      in if 2 powi d \<le> x then d else d - 1)"

text \<open>Rounding to a double: 53 significant bits.\<close>

definition to_double :: "rat \<Rightarrow> number" where
  "to_double x =
     (if x = 0 then Num 0
      else let e = max (binade \<bar>x\<bar> - 52) (- 1074);
               r = of_int (round_even (\<bar>x\<bar> / 2 powi e)) * 2 powi e
           in if 2 ^ 1024 \<le> r then (if 0 < x then PosInf else NegInf)
              else Num (sgn x * r))"

text \<open>\<open>a / b\<close> on two finite numbers.\<close>

definition js_div :: "rat \<Rightarrow> rat \<Rightarrow> number" where
  "js_div a b =
     (if b = 0 then (if a = 0 then NaN else if 0 < a then PosInf else NegInf)
      else to_double (a / b))"

text \<open>\<open>x * c\<close> for a finite constant \<open>c\<close>.\<close>

fun js_mul :: "number \<Rightarrow> rat \<Rightarrow> number" where
  "js_mul (Num x) c = to_double (x * c)"
| "js_mul NaN c = NaN"
| "js_mul PosInf c = (if c = 0 then NaN else if 0 < c then PosInf else NegInf)"
| "js_mul NegInf c = (if c = 0 then NaN else if 0 < c then NegInf else PosInf)"

text \<open>\<open>Math.round\<close> rounds to the nearest integer, a tie towards plus infinity;
  it and \<open>Math.floor\<close>, \<open>Math.max\<close>, \<open>Math.min\<close> and the comparisons are exact.\<close>

fun js_round :: "number \<Rightarrow> number" where
  "js_round (Num x) = Num (of_int \<lfloor>x + 1 / 2\<rfloor>)"
| "js_round n = n"

fun js_floor :: "number \<Rightarrow> number" where
  "js_floor (Num x) = Num (of_int \<lfloor>x\<rfloor>)"
| "js_floor n = n"

text \<open>\<open>Math.max\<close> and \<open>Math.min\<close>: \<open>NaN\<close> as soon as one argument is.\<close>

fun js_max :: "number \<Rightarrow> number \<Rightarrow> number" where
  "js_max NaN b = NaN"
| "js_max a NaN = NaN"
| "js_max PosInf b = PosInf"
| "js_max a PosInf = PosInf"
| "js_max NegInf b = b"
| "js_max a NegInf = a"
| "js_max (Num x) (Num y) = Num (max x y)"

fun js_min :: "number \<Rightarrow> number \<Rightarrow> number" where
  "js_min NaN b = NaN"
| "js_min a NaN = NaN"
| "js_min NegInf b = NegInf"
| "js_min a NegInf = NegInf"
| "js_min PosInf b = b"
| "js_min a PosInf = a"
| "js_min (Num x) (Num y) = Num (min x y)"

text \<open>\<open>a >= b\<close> and \<open>a > b\<close>: every comparison with \<open>NaN\<close> is false.\<close>

fun js_ge :: "number \<Rightarrow> number \<Rightarrow> bool" where
  "js_ge NaN b = False"
| "js_ge a NaN = False"
| "js_ge PosInf b = True"
| "js_ge NegInf b = (b = NegInf)"
| "js_ge (Num x) PosInf = False"
| "js_ge (Num x) NegInf = True"
| "js_ge (Num x) (Num y) = (y \<le> x)"

fun js_gt :: "number \<Rightarrow> number \<Rightarrow> bool" where
  "js_gt NaN b = False"
| "js_gt a NaN = False"
| "js_gt PosInf b = (b \<noteq> PosInf)"
| "js_gt NegInf b = False"
| "js_gt (Num x) PosInf = False"
| "js_gt (Num x) NegInf = True"
| "js_gt (Num x) (Num y) = (y < x)"

text \<open>\<open>x || 0\<close> on a number: \<open>0\<close> and \<open>NaN\<close> are falsy.\<close>

fun or_zero :: "number \<Rightarrow> number" where
  "or_zero NaN = Num 0"
| "or_zero n = n"

text \<open>
  A path of type Number with \<open>min: 0\<close> and \<open>max: 100\<close> (progress, bestScore, the score
  of an attempt): \<open>NaN\<close> is not cast to a Number, and the infinities are out of range.
\<close>

fun valid_percent :: "number \<Rightarrow> bool" where
  "valid_percent (Num x) = (0 \<le> x \<and> x \<le> 100)"
| "valid_percent n = False"

text \<open>A value of a JSON request body.\<close>

datatype json = JNum rat | JStr string | JBool bool | JNull

section \<open>Documents\<close>

type_synonym object_id = nat
type_synonym date = nat

text \<open>
  \<open>req.user\<close>: the decoded token, to which the authentication middleware adds \<open>id\<close>
  from \<open>userId\<close>. The login route signs \<open>userId\<close>, \<open>username\<close> and \<open>role\<close>;
  \<open>department\<close> is what a token carries beyond these.
\<close>

record user =
  uid :: object_id
  username :: string
  department :: string
  role :: string

subsection \<open>Training (models/Training.js)\<close>

record question =
  correctAnswer :: rat

record quiz =
  questions :: "question list"
  passingScore :: rat
  allowRetakes :: bool
  maxAttempts :: "rat option"

text \<open>
  The schema declares \<open>targetAudience\<close>, \<open>specificDepartments\<close> and
  \<open>specificRoles\<close>. The routes read the properties \<open>departments\<close> and \<open>roles\<close>,
  which the schema does not declare: on a loaded document they are \<open>undefined\<close>
  (\<open>None\<close>) unless something put an array there. \<open>quiz\<close> is a nested path with
  defaults, so a training loaded from the collection always has one (\<open>Some\<close>), with the
  empty question list, \<open>passingScore\<close> 70, \<open>allowRetakes\<close> and \<open>maxAttempts\<close> 3 when
  none was given; \<open>None\<close> is kept for the handlers' tests \<open>!training.quiz\<close>.
\<close>

record training =
  title :: string
  category :: string
  duration :: rat
  videoUrl :: "string option"
  youtubeUrl :: "string option"
  quiz :: "quiz option"
  targetAudience :: string
  specificDepartments :: "string list"
  specificRoles :: "string list"
  departments :: "string list option"
  roles :: "string list option"

text \<open>\<open>!!(this.content.videoUrl || this.content.youtubeUrl)\<close>: an empty string is falsy.\<close>

definition truthy_string :: "string option \<Rightarrow> bool" where
  "truthy_string v = (case v of None \<Rightarrow> False | Some s \<Rightarrow> s \<noteq> [])"

definition hasVideoContent :: "training \<Rightarrow> bool" where
  "hasVideoContent this = (if truthy_string (videoUrl this) then True else truthy_string (youtubeUrl this))"

subsection \<open>TrainingProgress (models/TrainingProgress.js)\<close>

datatype status = Not_started | In_progress | Completed | Failed

record answer_entry =
  questionIndex :: nat
  selectedAnswer :: rat
  isCorrect :: bool

record quiz_attempt =
  attemptNumber :: nat
  answers :: "answer_entry list"
  score :: number
  passed :: bool
  timeSpent :: rat
  submittedAt :: date

record training_progress =
  userId :: object_id
  trainingId :: object_id
  status :: status
  progress :: number
  videoWatchTime :: number
  videoCompleted :: bool
  quizAttempts :: "quiz_attempt list"
  bestScore :: number
  quizPassed :: bool
  certificateGenerated :: bool
  certificateUrl :: "object_id option"
  startedAt :: "date option"
  completedAt :: "date option"
  lastAccessedAt :: date

text \<open>
  \<open>certificateUrl\<close> is always \<open>/api/training/certificate/\<close> followed by the object id
  of a certificate, and is kept as that id.
\<close>

text \<open>\<open>new TrainingProgress({userId, trainingId, status: 'in_progress', progress: 0,
  startedAt: new Date()})\<close> with the defaults of the schema.\<close>

definition new_progress :: "date \<Rightarrow> object_id \<Rightarrow> object_id \<Rightarrow> training_progress" where
  "new_progress now u t =
     \<lparr>userId = u, trainingId = t, status = In_progress, progress = Num 0,
      videoWatchTime = Num 0, videoCompleted = False, quizAttempts = [],
      bestScore = Num 0, quizPassed = False, certificateGenerated = False,
      certificateUrl = None, startedAt = Some now, completedAt = None,
      lastAccessedAt = now\<rparr>"

subsection \<open>Certificate\<close>

record certificate =
  cert_id :: object_id
  cert_userId :: object_id
  cert_trainingId :: object_id
  certificateId :: string
  userName :: string
  trainingTitle :: string
  completionDate :: "date option"
  cert_score :: number
  cert_passingScore :: rat
  cert_duration :: rat
  cert_category :: string
  issuedBy :: string
  isValid :: bool
  downloadCount :: nat

subsection \<open>The collections\<close>

text \<open>
  The progress collection has a unique index on (userId, trainingId), so it is a map from
  that pair. The certificate collection is a list, in insertion order; its two unique
  indexes are checked when a certificate is saved.

  \<open>save()\<close> of a progress document casts and validates it, and rejects when that
  fails; the handler's catch block then answers 500 and nothing is written. The documents
  of the collection passed the validators when they were stored, so a \<open>save()\<close> is
  checked on the paths its handler has assigned. \<open>save_progress\<close> is the write itself.
\<close>

record state =
  trainings :: "object_id \<rightharpoonup> training"
  progresses :: "object_id \<times> object_id \<rightharpoonup> training_progress"
  certificates :: "certificate list"

text \<open>\<open>TrainingProgress.findOne({userId, trainingId})\<close>: the document of that pair.\<close>

definition find_progress :: "state \<Rightarrow> object_id \<Rightarrow> object_id \<Rightarrow> training_progress option" where
  "find_progress s u t =
     (case progresses s (u, t) of
        None \<Rightarrow> None
      | Some tp \<Rightarrow> if userId tp = u \<and> trainingId tp = t then Some tp else None)"

definition save_progress :: "training_progress \<Rightarrow> state \<Rightarrow> state" where
  "save_progress tp s = s\<lparr>progresses := (progresses s)((userId tp, trainingId tp) \<mapsto> tp)\<rparr>"

datatype js_error = TypeError | ValidationError

datatype response =
    Quiz_result number bool rat
  | Progress_ok training_progress
  | Certificate_ok object_id string
  | Training_ok training "training_progress option"
  | Bad_request string
  | Forbidden string
  | Not_found string
  | Server_error

section \<open>Quiz submission (POST /:id/quiz/submit)\<close>

text \<open>\<open>answers[index]\<close>: \<open>undefined\<close> (\<open>None\<close>) past the end of the array.\<close>

definition answer_at :: "json list \<Rightarrow> nat \<Rightarrow> json option" where
  "answer_at as i = (if i < length as then Some (as ! i) else None)"

text \<open>The \<open>forEach\<close> over the questions, with its counter.\<close>

definition count_step :: "json list \<Rightarrow> nat \<times> question \<Rightarrow> nat \<Rightarrow> nat" where
  "count_step as iq correctAnswers =
     (if answer_at as (fst iq) = Some (JNum (correctAnswer (snd iq)))
      then correctAnswers + 1 else correctAnswers)"

definition count_correct :: "json list \<Rightarrow> question list \<Rightarrow> nat" where
  "count_correct as qs = fold (count_step as) (enumerate 0 qs) 0"

definition quiz_score :: "json list \<Rightarrow> question list \<Rightarrow> number" where
  "quiz_score as qs =
     js_round (js_mul (js_div (of_nat (count_correct as qs)) (of_nat (length qs))) 100)"

text \<open>
  \<open>Array.prototype.toString\<close> joins the elements with commas; how an attempt
  subdocument prints is the object mapper's, and is the parameter \<open>render\<close>.
\<close>

fun array_text :: "(quiz_attempt \<Rightarrow> string) \<Rightarrow> quiz_attempt list \<Rightarrow> string" where
  "array_text render [] = []"
| "array_text render [x] = render x"
| "array_text render (x # y # ys) = render x @ '','' @ array_text render (y # ys)"

text \<open>
  A value assigned to the path \<open>quizAttempts\<close>, and its cast to the declared type, an
  array of attempt subdocuments: a string is not one, and a failed cast makes the
  document invalid.
\<close>

datatype js_value = Array_value "quiz_attempt list" | String_value string

fun cast_attempts :: "js_value \<Rightarrow> quiz_attempt list option" where
  "cast_attempts (Array_value xs) = Some xs"
| "cast_attempts (String_value s) = None"

text \<open>\<open>(quizAttempts || 0) + 1\<close>: an array is truthy, and \<open>+\<close> on an array and a
  number concatenates their texts.\<close>

definition attempts_plus_one :: "(quiz_attempt \<Rightarrow> string) \<Rightarrow> quiz_attempt list \<Rightarrow> js_value" where
  "attempts_plus_one render xs = String_value (array_text render xs @ ''1'')"

text \<open>
  The assignments to the progress document and what \<open>save()\<close> then checks.
  \<open>currentScore\<close> and \<open>lastQuizAt\<close> are not paths of the schema: the two assignments
  leave nothing to store.
\<close>

definition record_submission ::
  "(quiz_attempt \<Rightarrow> string) \<Rightarrow> date \<Rightarrow> number \<Rightarrow> bool \<Rightarrow> training_progress
     \<Rightarrow> js_error + training_progress" where
  "record_submission render now sc pass tp =
     (case cast_attempts (attempts_plus_one render (quizAttempts tp)) of
        None \<Rightarrow> Inl ValidationError
      | Some xs \<Rightarrow>
          (let tp1 = tp\<lparr>bestScore := js_max (or_zero (bestScore tp)) sc, quizAttempts := xs\<rparr>;
               tp2 = (if pass
                      then tp1\<lparr>status := Completed, completedAt := Some now, progress := Num 100\<rparr>
                      else tp1)
           in if valid_percent (bestScore tp2) then Inr tp2 else Inl ValidationError))"

text \<open>The handler after the lookups: score, verdict, the update of the progress document
  when there is one, and the answer, which is sent after \<open>save()\<close> has returned.\<close>

definition quiz_grade ::
  "(quiz_attempt \<Rightarrow> string) \<Rightarrow> date \<Rightarrow> user \<Rightarrow> object_id \<Rightarrow> json list \<Rightarrow> quiz \<Rightarrow> state
     \<Rightarrow> response \<times> state" where
  "quiz_grade render now usr tid as qz s =
     (let sc = quiz_score as (questions qz);
          pass = js_ge sc (Num (passingScore qz))
      in case find_progress s (uid usr) tid of
           None \<Rightarrow> (Quiz_result sc pass (passingScore qz), s)
         | Some tp \<Rightarrow>
             (case record_submission render now sc pass tp of
                Inl e \<Rightarrow> (Server_error, s)
              | Inr tp' \<Rightarrow> (Quiz_result sc pass (passingScore qz), save_progress tp' s)))"

text \<open>
  \<open>body_answers\<close> is \<open>req.body.answers\<close>, \<open>None\<close> when the body has none: then
  \<open>answers[index]\<close> throws in the first iteration, and the catch block answers 500.
\<close>

definition quiz_submit ::
  "(quiz_attempt \<Rightarrow> string) \<Rightarrow> date \<Rightarrow> user \<Rightarrow> object_id \<Rightarrow> json list option \<Rightarrow> state
     \<Rightarrow> response \<times> state" where
  "quiz_submit render now usr tid body_answers s =
     (case trainings s tid of
        None \<Rightarrow> (Not_found ''Training or quiz not found'', s)
      | Some tr \<Rightarrow>
          (case quiz tr of
             None \<Rightarrow> (Not_found ''Training or quiz not found'', s)
           | Some qz \<Rightarrow>
               (case body_answers of
                  None \<Rightarrow>
                    (if questions qz = [] then quiz_grade render now usr tid [] qz s
                     else (Server_error, s))
                | Some as \<Rightarrow> quiz_grade render now usr tid as qz s)))"

section \<open>Methods of a progress document\<close>

text \<open>\<open>training.quiz.maxAttempts || 3\<close>: unset and \<open>0\<close> are falsy.\<close>

definition max_attempts_or_3 :: "rat option \<Rightarrow> rat" where
  "max_attempts_or_3 m = (case m of None \<Rightarrow> 3 | Some v \<Rightarrow> if v = 0 then 3 else v)"

definition canTakeQuiz :: "training_progress \<Rightarrow> training option \<Rightarrow> bool" where
  "canTakeQuiz this tr_opt =
     (case tr_opt of
        None \<Rightarrow> False
      | Some tr \<Rightarrow>
          (case quiz tr of
             None \<Rightarrow> False
           | Some qz \<Rightarrow>
               if hasVideoContent tr \<and> \<not> videoCompleted this then False
               else if quizPassed this then allowRetakes qz
               else of_nat (length (quizAttempts this)) < max_attempts_or_3 (maxAttempts qz)))"

text \<open>
  \<open>addQuizAttempt\<close>, the changes to the document before \<open>this.save()\<close>; the array of
  a document is never falsy.
\<close>

definition addQuizAttempt_fields ::
  "date \<Rightarrow> answer_entry list \<Rightarrow> number \<Rightarrow> bool \<Rightarrow> rat \<Rightarrow> training_progress
     \<Rightarrow> training_progress" where
  "addQuizAttempt_fields now ans sc pass spent this =
     (let this1 = this\<lparr>quizAttempts := quizAttempts this @
                    [\<lparr>attemptNumber = length (quizAttempts this) + 1, answers = ans, score = sc,
                      passed = pass, timeSpent = spent, submittedAt = now\<rparr>]\<rparr>;
          this2 = (if js_gt sc (bestScore this1) then this1\<lparr>bestScore := sc\<rparr> else this1)
      in if pass
         then this2\<lparr>quizPassed := True, status := Completed, progress := Num 100,
                    completedAt := Some now\<rparr>
         else this2)"

text \<open>\<open>this.save()\<close> checks the score of the new attempt, which is also the only value
  \<open>bestScore\<close> is set to.\<close>

definition addQuizAttempt ::
  "date \<Rightarrow> answer_entry list \<Rightarrow> number \<Rightarrow> bool \<Rightarrow> rat \<Rightarrow> training_progress \<Rightarrow> state
     \<Rightarrow> js_error + state" where
  "addQuizAttempt now ans sc pass spent this s =
     (if valid_percent sc
      then Inr (save_progress (addQuizAttempt_fields now ans sc pass spent this) s)
      else Inl ValidationError)"

text \<open>\<open>updateVideoProgress\<close>, the changes to the document before \<open>this.save()\<close>.\<close>

definition updateVideoProgress_fields ::
  "date \<Rightarrow> rat \<Rightarrow> rat \<Rightarrow> training_progress \<Rightarrow> training_progress" where
  "updateVideoProgress_fields now watchTime totalDuration this =
     (let this1 = this\<lparr>videoWatchTime := js_max (videoWatchTime this) (Num watchTime)\<rparr>;
          watchPercentage = js_mul (js_div watchTime totalDuration) 100;
          this2 = (if js_ge watchPercentage (Num 90)
                   then this1\<lparr>videoCompleted := True, progress := js_max (progress this1) (Num 50)\<rparr>
                   else this1\<lparr>progress :=
                          js_max (progress this1) (js_floor (js_mul watchPercentage (1 / 2)))\<rparr>);
          this3 = this2\<lparr>lastAccessedAt := now\<rparr>
      in if status this3 = Not_started
         then this3\<lparr>status := In_progress, startedAt := Some now\<rparr>
         else this3)"

text \<open>\<open>this.save()\<close> checks the progress; \<open>videoWatchTime\<close> has no range.\<close>

definition updateVideoProgress ::
  "date \<Rightarrow> rat \<Rightarrow> rat \<Rightarrow> training_progress \<Rightarrow> state \<Rightarrow> js_error + state" where
  "updateVideoProgress now watchTime totalDuration this s =
     (let this' = updateVideoProgress_fields now watchTime totalDuration this
      in if valid_percent (progress this')
         then Inr (save_progress this' s)
         else Inl ValidationError)"

section \<open>The other training routes\<close>

subsection \<open>PUT /:id/video-progress\<close>

text \<open>
  \<open>watchTime\<close>, \<open>totalDuration\<close> and \<open>completed\<close> are the fields of the body, numbers
  and a boolean (absent is \<open>False\<close>). With \<open>completed\<close> set the training is loaded, and
  \<open>training.quiz\<close> on a training that does not exist throws. \<open>save()\<close> checks the
  progress, which a negative \<open>watchTime\<close> takes below 0.
\<close>

definition store_progress :: "training_progress \<Rightarrow> state \<Rightarrow> response \<times> state" where
  "store_progress tp s =
     (if valid_percent (progress tp) then (Progress_ok tp, save_progress tp s)
      else (Server_error, s))"

definition no_quiz_required :: "training \<Rightarrow> bool" where
  "no_quiz_required tr = (case quiz tr of None \<Rightarrow> True | Some qz \<Rightarrow> questions qz = [])"

definition video_progress ::
  "date \<Rightarrow> user \<Rightarrow> object_id \<Rightarrow> rat \<Rightarrow> rat \<Rightarrow> bool \<Rightarrow> state \<Rightarrow> response \<times> state" where
  "video_progress now usr tid watchTime totalDuration completed s =
     (let tp0 = (case find_progress s (uid usr) tid of
                   None \<Rightarrow> new_progress now (uid usr) tid
                 | Some tp \<Rightarrow> tp);
          tp1 = tp0\<lparr>videoWatchTime := Num watchTime, videoCompleted := completed,
                     lastAccessedAt := now\<rparr>
      in if completed then
           (case trainings s tid of
              None \<Rightarrow> (Server_error, s)
            | Some tr \<Rightarrow>
                (let tp2 = tp1\<lparr>progress := Num 100\<rparr>;
                     tp3 = (if no_quiz_required tr
                            then tp2\<lparr>status := Completed, completedAt := Some now\<rparr>
                            else tp2)
                 in store_progress tp3 s))
         else if 0 < totalDuration then
           (let tp2 = tp1\<lparr>progress :=
                        js_min (Num 95) (js_mul (js_div watchTime totalDuration) 100)\<rparr>
            in store_progress tp2 s)
         else store_progress tp1 s)"

subsection \<open>PUT /:id/progress\<close>

definition update_progress ::
  "date \<Rightarrow> user \<Rightarrow> object_id \<Rightarrow> rat \<Rightarrow> state \<Rightarrow> response \<times> state" where
  "update_progress now usr tid p s =
     (case find_progress s (uid usr) tid of
        None \<Rightarrow> (Not_found ''Training progress not found'', s)
      | Some tp \<Rightarrow>
          (let tp1 = tp\<lparr>progress := js_min (Num 100) (js_max (Num 0) (Num p)),
                        lastAccessedAt := now\<rparr>;
               tp2 = (if progress tp1 = Num 100
                      then tp1\<lparr>status := Completed, completedAt := Some now\<rparr>
                      else tp1)
           in store_progress tp2 s))"

subsection \<open>POST /:id/certificate\<close>

text \<open>\<open>TrainingProgress.findOne({userId, trainingId, status: 'completed'})\<close>.\<close>

definition find_completed :: "state \<Rightarrow> object_id \<Rightarrow> object_id \<Rightarrow> training_progress option" where
  "find_completed s u t =
     (case find_progress s u t of
        None \<Rightarrow> None
      | Some tp \<Rightarrow> if status tp = Completed then Some tp else None)"

text \<open>\<open>Certificate.findOne({userId, trainingId})\<close>.\<close>

definition find_certificate :: "object_id \<Rightarrow> object_id \<Rightarrow> certificate list \<Rightarrow> certificate option" where
  "find_certificate u t cs = find (\<lambda>c. cert_userId c = u \<and> cert_trainingId c = t) cs"

text \<open>The two unique indexes of the certificate schema: \<open>save()\<close> of a new certificate
  is rejected when one of them would be violated.\<close>

definition insert_allowed :: "certificate \<Rightarrow> certificate list \<Rightarrow> bool" where
  "insert_allowed c cs =
     (find (\<lambda>d. certificateId d = certificateId c) cs = None \<and>
      find_certificate (cert_userId c) (cert_trainingId c) cs = None)"

text \<open>\<open>training.quiz?.passingScore || 0\<close>.\<close>

definition passing_or_zero :: "training \<Rightarrow> rat" where
  "passing_or_zero tr = (case quiz tr of None \<Rightarrow> 0 | Some qz \<Rightarrow> passingScore qz)"

text \<open>
  \<open>new_id\<close> is the object id the new document gets and \<open>new_cid\<close> the string
  \<open>Certificate.generateCertificateId()\<close> returns (a time stamp and a random suffix);
  both come from outside.
\<close>

definition issue_certificate ::
  "object_id \<Rightarrow> string \<Rightarrow> user \<Rightarrow> object_id \<Rightarrow> state \<Rightarrow> response \<times> state" where
  "issue_certificate new_id new_cid usr tid s =
     (case find_completed s (uid usr) tid of
        None \<Rightarrow> (Bad_request ''Training must be completed before generating certificate'', s)
      | Some prog \<Rightarrow>
          (case find_certificate (uid usr) tid (certificates s) of
             Some c \<Rightarrow> (Certificate_ok (cert_id c) (certificateId c), s)
           | None \<Rightarrow>
               (case trainings s tid of
                  None \<Rightarrow> (Server_error, s)
                | Some tr \<Rightarrow>
                    (let c = \<lparr>cert_id = new_id, cert_userId = uid usr, cert_trainingId = tid,
                              certificateId = new_cid, userName = username usr,
                              trainingTitle = title tr, completionDate = completedAt prog,
                              cert_score = or_zero (bestScore prog),
                              cert_passingScore = passing_or_zero tr,
                              cert_duration = duration tr, cert_category = category tr,
                              issuedBy = ''LMS Orient Training System'', isValid = True,
                              downloadCount = 0\<rparr>
                     in if insert_allowed c (certificates s)
                        then (Certificate_ok new_id new_cid,
                              save_progress
                                (prog\<lparr>certificateGenerated := True,
                                      certificateUrl := Some new_id\<rparr>)
                                (s\<lparr>certificates := certificates s @ [c]\<rparr>))
                        else (Server_error, s)))))"

subsection \<open>GET /:id\<close>

text \<open>\<open>training.departments.includes(x)\<close>: a \<open>TypeError\<close> when the property is
  \<open>undefined\<close>.\<close>

definition array_includes :: "string list option \<Rightarrow> string \<Rightarrow> js_error + bool" where
  "array_includes arr x = (case arr of None \<Rightarrow> Inl TypeError | Some xs \<Rightarrow> Inr (x \<in> set xs))"

definition hasAccess :: "training \<Rightarrow> user \<Rightarrow> js_error + bool" where
  "hasAccess tr usr =
     (if targetAudience tr = ''all'' then Inr True
      else (case array_includes (departments tr) (department usr) of
              Inl e \<Rightarrow> Inl e
            | Inr True \<Rightarrow> Inr True
            | Inr False \<Rightarrow> array_includes (roles tr) (role usr)))"

definition get_training :: "user \<Rightarrow> object_id \<Rightarrow> state \<Rightarrow> response \<times> state" where
  "get_training usr tid s =
     (case trainings s tid of
        None \<Rightarrow> (Not_found ''Training not found'', s)
      | Some tr \<Rightarrow>
          (case hasAccess tr usr of
             Inl e \<Rightarrow> (Server_error, s)
           | Inr False \<Rightarrow> (Forbidden ''Access denied to this training'', s)
           | Inr True \<Rightarrow> (Training_ok tr (find_progress s (uid usr) tid), s)))"

section \<open>Example data\<close>

text \<open>
  An employee of the Finance department and two trainings of the seed script, as they are
  loaded from the collection: the first, for everybody, with a quiz of two questions; the
  fourth, aimed at the Finance department (\<open>targetAudience: 'specific',
  specificDepartments: ['Finance'], roles: []\<close>), given no quiz, so that its \<open>quiz\<close>
  holds the defaults and no question. The \<open>departments\<close> and \<open>roles\<close> the script passes
  are not paths of the schema and are not stored.
\<close>

definition example_user :: user where
  "example_user = \<lparr>uid = 7, username = ''employee'', department = ''Finance'', role = ''employee''\<rparr>"

definition example_quiz :: quiz where
  "example_quiz =
     \<lparr>questions = [\<lparr>correctAnswer = 1\<rparr>, \<lparr>correctAnswer = 3\<rparr>], passingScore = 70,
      allowRetakes = True, maxAttempts = Some 3\<rparr>"

definition example_training :: training where
  "example_training =
     \<lparr>title = ''Data Protection Fundamentals'', category = ''Compliance'', duration = 45,
      videoUrl = None, youtubeUrl = Some ''https://www.youtube.com/watch?v=TE4UW7MXBGc'',
      quiz = Some example_quiz, targetAudience = ''all'', specificDepartments = [],
      specificRoles = [], departments = None, roles = None\<rparr>"

definition finance_training :: training where
  "finance_training =
     \<lparr>title = ''Finance Department Training'', category = ''Technical'',
      duration = 60, videoUrl = None,
      youtubeUrl = Some ''https://www.youtube.com/watch?v=TE4UW7MXBGc'',
      quiz = Some \<lparr>questions = [], passingScore = 70, allowRetakes = True,
                    maxAttempts = Some 3\<rparr>,
      targetAudience = ''specific'', specificDepartments = [''Finance''], specificRoles = [],
      departments = None, roles = None\<rparr>"

text \<open>The two trainings have the ids 11 and 14. The employee has started training 11 at
  time 100; there is no certificate yet.\<close>

definition example_state :: state where
  "example_state =
     \<lparr>trainings = [11 \<mapsto> example_training, 14 \<mapsto> finance_training],
      progresses = [(7, 11) \<mapsto> new_progress 100 7 11],
      certificates = []\<rparr>"


text \<open>The example state after the employee has reported 80 of 100 seconds watched on
  training 11 at time 200 (PUT /:id/video-progress).\<close>

definition watched_state :: state where
  "watched_state = snd (video_progress 200 example_user 11 80 100 False example_state)"

definition example_attempt :: quiz_attempt where
  "example_attempt =
     \<lparr>attemptNumber = 1, answers = [], score = Num 50, passed = False, timeSpent = 5,
      submittedAt = 150\<rparr>"

section \<open>Facts about the collections\<close>

lemma certificates_save_progress [simp]: "certificates (save_progress tp s) = certificates s"
  by (simp add: save_progress_def)

lemma trainings_save_progress [simp]: "trainings (save_progress tp s) = trainings s"
  by (simp add: save_progress_def)

lemma find_save_progress:
  "userId tp = u \<Longrightarrow> trainingId tp = t \<Longrightarrow> find_progress (save_progress tp s) u t = Some tp"
  by (simp add: find_progress_def save_progress_def)

lemma find_progress_keys:
  "find_progress s u t = Some tp \<Longrightarrow> userId tp = u \<and> trainingId tp = t"
  by (auto simp: find_progress_def split: option.splits if_splits)

lemma find_progress_example:
  "find_progress example_state 7 11 = Some (new_progress 100 7 11)"
  by (simp add: find_progress_def example_state_def new_progress_def)

section \<open>Rounding to doubles\<close>

text \<open>\<open>binade\<close> is the exponent of the power of two at or below a positive rational.\<close>

lemma of_int_bitlen_bounds:
  assumes "0 < p"
  shows "2 powi (bitlen p - 1) \<le> (of_int p :: rat)" and "(of_int p :: rat) < 2 powi bitlen p"
proof -
  from bitlen_bounds [OF assms]
  have lo: "2 ^ nat (bitlen p - 1) \<le> p" and hi: "p < 2 ^ nat (bitlen p)"
    by simp_all
  have pos: "0 < bitlen p"
    using assms bitlen_eq_zero_iff [of p] bitlen_nonneg [of p] by linarith
  have "(of_int (2 ^ nat (bitlen p - 1)) :: rat) \<le> of_int p"
    using lo by (simp only: of_int_le_iff)
  then show "2 powi (bitlen p - 1) \<le> (of_int p :: rat)"
    using pos by (simp add: power_int_def)
  have "(of_int p :: rat) < of_int (2 ^ nat (bitlen p))"
    using hi by (simp only: of_int_less_iff)
  then show "(of_int p :: rat) < 2 powi bitlen p"
    using pos by (simp add: power_int_def)
qed

lemma binade_bounds:
  assumes "0 < x"
  shows "2 powi binade x \<le> x \<and> x < 2 powi (binade x + 1)"
proof -
  obtain p q where pq: "quotient_of x = (p, q)"
    by (cases "quotient_of x")
  have q: "0 < q"
    using pq by (rule quotient_of_denom_pos)
  have x: "x = of_int p / of_int q"
    using pq by (rule quotient_of_div)
  have p: "0 < p"
    using assms q unfolding x by (simp add: zero_less_divide_iff)
  let ?d = "bitlen p - bitlen q"
  have "x < 2 powi bitlen p / 2 powi (bitlen q - 1)"
    unfolding x
    using of_int_bitlen_bounds [OF p] of_int_bitlen_bounds [OF q] p
    by (intro frac_less) simp_all
  then have hi: "x < 2 powi (?d + 1)"
    by (simp add: power_int_diff power_int_add)
  have "2 powi (bitlen p - 1) / 2 powi bitlen q < x"
    unfolding x
    using of_int_bitlen_bounds [OF p] of_int_bitlen_bounds [OF q] q
    by (intro frac_less2) simp_all
  then have lo: "2 powi (?d - 1) < x"
    by (simp add: power_int_diff)
  show ?thesis
    using lo hi by (simp add: binade_def pq Let_def)
qed

lemma round_even_near: "\<bar>of_int (round_even x) - x\<bar> \<le> 1 / 2"
proof -
  have "of_int \<lfloor>x\<rfloor> \<le> x" and "x < of_int \<lfloor>x\<rfloor> + 1"
    by linarith+
  then show ?thesis
    by (auto simp: round_even_def Let_def abs_le_iff)
qed

lemma to_double_not_NaN: "to_double x \<noteq> NaN"
  by (simp add: to_double_def Let_def)

text \<open>The values the examples need. 23 of 40 right is 57.49999999999999 percent and
  rounds to 57, not to 58; 29 of 50 seconds is 57.99999999999999 percent, and its half
  floors to 28, not to 29.\<close>

lemma double_2_of_2: "js_mul (js_div 2 2) 100 = Num 100"
  by code_simp

lemma double_80_of_100: "js_mul (js_div 80 100) 100 = Num 80"
  by code_simp

lemma double_10_of_100: "js_mul (js_div 10 100) 100 = Num 10"
  by code_simp

lemma double_95_of_100: "js_mul (js_div 95 100) 100 = Num 95"
  by code_simp

lemma double_23_of_40: "js_round (js_mul (js_div 23 40) 100) = Num 57"
  by code_simp

lemma double_29_of_50: "js_floor (js_mul (js_mul (js_div 29 50) 100) (1 / 2)) = Num 28"
  by code_simp

section \<open>Quiz submission\<close>

text \<open>The loop over the questions counts the positions where the submitted answer is the
  question's correct option.\<close>

lemma fold_count_step:
  "fold (count_step as) iqs acc =
     acc + length (filter (\<lambda>iq. answer_at as (fst iq) = Some (JNum (correctAnswer (snd iq)))) iqs)"
  by (induction iqs arbitrary: acc) (auto simp: count_step_def)

lemma enumerate_as_map: "enumerate 0 qs = map (\<lambda>i. (i, qs ! i)) [0..<length qs]"
  by (rule nth_equalityI) (simp_all add: nth_enumerate_eq)

lemma count_correct_card:
  "count_correct as qs =
     card {i. i < length qs \<and> i < length as \<and> as ! i = JNum (correctAnswer (qs ! i))}"
proof -
  let ?hit = "\<lambda>i. answer_at as i = Some (JNum (correctAnswer (qs ! i)))"
  have "count_correct as qs = length (filter ?hit [0..<length qs])"
    by (simp add: count_correct_def fold_count_step enumerate_as_map filter_map comp_def)
  also have "\<dots> = card ({i. ?hit i} \<inter> set [0..<length qs])"
    by (rule distinct_length_filter) simp
  also have "{i. ?hit i} \<inter> set [0..<length qs] =
      {i. i < length qs \<and> i < length as \<and> as ! i = JNum (correctAnswer (qs ! i))}"
    by (auto simp: answer_at_def split: if_splits)
  finally show ?thesis .
qed

text \<open>Without a progress document the route answers with the score and the verdict, and
  stores nothing.\<close>

lemma quiz_submit_without_document:
  assumes "trainings s tid = Some tr" and "quiz tr = Some qz"
    and "find_progress s (uid usr) tid = None"
  shows "quiz_submit render now usr tid (Some as) s =
           (Quiz_result
              (js_round (js_mul (js_div
                 (of_nat (card {i. i < length (questions qz) \<and> i < length as \<and>
                    as ! i = JNum (correctAnswer (questions qz ! i))}))
                 (of_nat (length (questions qz)))) 100))
              (js_ge (js_round (js_mul (js_div
                 (of_nat (card {i. i < length (questions qz) \<and> i < length as \<and>
                    as ! i = JNum (correctAnswer (questions qz ! i))}))
                 (of_nat (length (questions qz)))) 100)) (Num (passingScore qz)))
              (passingScore qz), s)"
  using assms
  by (simp add: quiz_submit_def quiz_grade_def quiz_score_def count_correct_card Let_def)

text \<open>With a progress document the cast of the string to the attempt array fails,
  \<open>save()\<close> rejects, and the route answers 500 and stores nothing, whatever the
  answers.\<close>

lemma record_submission_fails: "record_submission render now sc pass tp = Inl ValidationError"
  by (simp add: record_submission_def attempts_plus_one_def)

lemma quiz_submit_with_document:
  assumes "trainings s tid = Some tr" and "quiz tr = Some qz"
    and "find_progress s (uid usr) tid = Some tp"
  shows "quiz_submit render now usr tid (Some as) s = (Server_error, s)"
  using assms
  by (simp add: quiz_submit_def quiz_grade_def Let_def record_submission_fails)

lemma example_score: "quiz_score [JNum 1, JNum 3] (questions example_quiz) = Num 100"
proof -
  have "count_correct [JNum 1, JNum 3] (questions example_quiz) = 2"
    by (simp add: count_correct_def example_quiz_def enumerate_eq_zip count_step_def answer_at_def
        upt_rec)
  moreover have "\<lfloor>(201 / 2 :: rat)\<rfloor> = 100"
    by (rule floor_unique) simp_all
  ultimately show ?thesis
    by (simp add: quiz_score_def example_quiz_def double_2_of_2)
qed

lemma example_submission:
  "quiz_submit render 200 example_user 11 (Some [JNum 1, JNum 3]) example_state
     = (Server_error, example_state)"
proof -
  have tr: "trainings example_state 11 = Some example_training"
    by (simp add: example_state_def)
  have qz: "quiz example_training = Some example_quiz"
    by (simp add: example_training_def)
  have tp: "find_progress example_state (uid example_user) 11 = Some (new_progress 100 7 11)"
    by (simp add: example_user_def find_progress_example)
  show ?thesis
    by (rule quiz_submit_with_document [OF tr qz tp])
qed

text \<open>
  C1. The submission of the example: both answers right on the quiz of training 11, by
  the employee whose progress document is \<open>in_progress\<close>. The score is 100 and reaches
  the \<open>passingScore\<close> of 70, but the route answers 500, and the stored document keeps
  the status \<open>in_progress\<close>, progress 0 and no \<open>completedAt\<close>.
\<close>

theorem quiz_submit_rejected:
  "quiz_score [JNum 1, JNum 3] (questions example_quiz) = Num 100
   \<and> js_ge (Num 100) (Num (passingScore example_quiz))
   \<and> quiz_submit render 200 example_user 11 (Some [JNum 1, JNum 3]) example_state
       = (Server_error, example_state)
   \<and> map_option status (find_progress (snd (quiz_submit render 200 example_user 11
         (Some [JNum 1, JNum 3]) example_state)) 7 11) = Some In_progress
   \<and> map_option progress (find_progress (snd (quiz_submit render 200 example_user 11
         (Some [JNum 1, JNum 3]) example_state)) 7 11) = Some (Num 0)
   \<and> map_option completedAt (find_progress (snd (quiz_submit render 200 example_user 11
         (Some [JNum 1, JNum 3]) example_state)) 7 11) = Some None"
  by (simp add: example_score example_submission find_progress_example new_progress_def)
    (simp add: example_quiz_def)

text \<open>
  C4. After that passing submission neither \<open>quizPassed\<close> nor the status \<open>completed\<close>
  is set on the stored document.
\<close>

theorem quiz_submit_completes_nothing:
  "fst (quiz_submit render 200 example_user 11 (Some [JNum 1, JNum 3]) example_state)
     = Server_error
   \<and> map_option quizPassed (find_progress (snd (quiz_submit render 200 example_user 11
         (Some [JNum 1, JNum 3]) example_state)) 7 11) = Some False
   \<and> map_option status (find_progress (snd (quiz_submit render 200 example_user 11
         (Some [JNum 1, JNum 3]) example_state)) 7 11) = Some In_progress"
  by (simp add: example_submission find_progress_example new_progress_def)

text \<open>
  C9. Before and after that submission the attempt list of the stored document is empty
  and \<open>bestScore\<close> is 0: no attempt is recorded.
\<close>

theorem quiz_submit_stores_no_attempt:
  "map_option quizAttempts (find_progress example_state 7 11) = Some []
   \<and> map_option quizAttempts (find_progress (snd (quiz_submit render 200 example_user 11
         (Some [JNum 1, JNum 3]) example_state)) 7 11) = Some []
   \<and> map_option bestScore (find_progress (snd (quiz_submit render 200 example_user 11
         (Some [JNum 1, JNum 3]) example_state)) 7 11) = Some (Num 0)"
  by (simp add: example_submission find_progress_example new_progress_def)

text \<open>The method \<open>addQuizAttempt\<close>, which the route does not call, appends the attempt
  with the next number, raises \<open>bestScore\<close>, and on a passed attempt sets \<open>quizPassed\<close>,
  status, progress and \<open>completedAt\<close> together; a failed attempt leaves these four as
  they are.\<close>

lemma addQuizAttempt_fields_appends:
  "quizAttempts (addQuizAttempt_fields now ans sc pass spent this) =
     quizAttempts this @
       [\<lparr>attemptNumber = length (quizAttempts this) + 1, answers = ans, score = sc,
         passed = pass, timeSpent = spent, submittedAt = now\<rparr>]
   \<and> bestScore (addQuizAttempt_fields now ans sc pass spent this) =
       (if js_gt sc (bestScore this) then sc else bestScore this)
   \<and> (if pass
       then quizPassed (addQuizAttempt_fields now ans sc pass spent this)
            \<and> status (addQuizAttempt_fields now ans sc pass spent this) = Completed
            \<and> progress (addQuizAttempt_fields now ans sc pass spent this) = Num 100
            \<and> completedAt (addQuizAttempt_fields now ans sc pass spent this) = Some now
       else quizPassed (addQuizAttempt_fields now ans sc pass spent this) = quizPassed this
            \<and> status (addQuizAttempt_fields now ans sc pass spent this) = status this
            \<and> progress (addQuizAttempt_fields now ans sc pass spent this) = progress this
            \<and> completedAt (addQuizAttempt_fields now ans sc pass spent this) = completedAt this)"
  by (simp add: addQuizAttempt_fields_def Let_def)

section \<open>Certificates\<close>

text \<open>
  C3. When the user's progress document for the training does not have the status
  \<open>completed\<close>, or there is none, the certificate request is refused with status 400
  (training must be completed first), and the state, the certificate collection
  included, is unchanged.
\<close>

theorem issue_certificate_requires_completion:
  assumes "case find_progress s (uid usr) tid of None \<Rightarrow> True | Some tp \<Rightarrow> status tp \<noteq> Completed"
  shows "issue_certificate new_id new_cid usr tid s
           = (Bad_request ''Training must be completed before generating certificate'', s)"
proof -
  have "find_completed s (uid usr) tid = None"
    using assms by (auto simp: find_completed_def split: option.splits)
  then show ?thesis
    by (simp add: issue_certificate_def)
qed

theorem issue_certificate_requires_completion_witness:
  "issue_certificate 50 ''CERT-A'' example_user 11 example_state
     = (Bad_request ''Training must be completed before generating certificate'', example_state)
   \<and> issue_certificate 50 ''CERT-A'' example_user 14 example_state
     = (Bad_request ''Training must be completed before generating certificate'', example_state)"
proof -
  have started: "case find_progress example_state (uid example_user) 11 of
      None \<Rightarrow> True | Some tp \<Rightarrow> status tp \<noteq> Completed"
    by (simp add: find_progress_def example_state_def example_user_def new_progress_def)
  have absent: "case find_progress example_state (uid example_user) 14 of
      None \<Rightarrow> True | Some tp \<Rightarrow> status tp \<noteq> Completed"
    by (simp add: find_progress_def example_state_def example_user_def)
  show ?thesis
    using issue_certificate_requires_completion [OF started]
      issue_certificate_requires_completion [OF absent] by simp
qed






section \<open>The generic progress update\<close>

text \<open>
  C10. On an existing progress document, PUT /:id/progress with a number \<open>p\<close> stores
  progress \<open>min(100, max(0, p))\<close>. When that value is 100 the status becomes
  \<open>completed\<close> and \<open>completedAt\<close> is set, whatever the quiz state: \<open>quizPassed\<close> and the
  attempts are left as they were, so a training with a quiz is completed without any quiz
  submission. Otherwise status and \<open>completedAt\<close> do not change.
\<close>

theorem update_progress_clamps:
  assumes tp: "find_progress s (uid usr) tid = Some tp"
  shows "\<exists>tp'. update_progress now usr tid p s = (Progress_ok tp', save_progress tp' s)
           \<and> find_progress (save_progress tp' s) (uid usr) tid = Some tp'
           \<and> progress tp' = Num (min 100 (max 0 p))
           \<and> quizPassed tp' = quizPassed tp \<and> quizAttempts tp' = quizAttempts tp
           \<and> (if min 100 (max 0 p) = 100
               then status tp' = Completed \<and> completedAt tp' = Some now
               else status tp' = status tp \<and> completedAt tp' = completedAt tp)"
proof -
  have keys: "userId tp = uid usr" "trainingId tp = tid"
    using tp by (auto simp: find_progress_def split: option.splits if_splits)
  define tp1 where "tp1 = tp\<lparr>progress := Num (min 100 (max 0 p)), lastAccessedAt := now\<rparr>"
  define tp' where "tp' = (if min 100 (max 0 p) = 100
      then tp1\<lparr>status := Completed, completedAt := Some now\<rparr> else tp1)"
  have valid: "valid_percent (progress tp')"
    by (auto simp: tp'_def tp1_def)
  have run: "update_progress now usr tid p s = store_progress tp' s"
    using tp by (simp add: update_progress_def tp'_def tp1_def Let_def)
  have stored: "store_progress tp' s = (Progress_ok tp', save_progress tp' s)"
    using valid by (simp add: store_progress_def)
  have keys': "userId tp' = uid usr" "trainingId tp' = tid"
    using keys by (simp_all add: tp'_def tp1_def)
  have found: "find_progress (save_progress tp' s) (uid usr) tid = Some tp'"
    using keys' by (rule find_save_progress)
  have fields: "progress tp' = Num (min 100 (max 0 p))" "quizPassed tp' = quizPassed tp"
    "quizAttempts tp' = quizAttempts tp"
    "if min 100 (max 0 p) = 100
     then status tp' = Completed \<and> completedAt tp' = Some now
     else status tp' = status tp \<and> completedAt tp' = completedAt tp"
    by (simp_all add: tp'_def tp1_def)
  show ?thesis
    using run stored found fields by (intro exI [of _ tp']) simp
qed

theorem update_progress_clamps_witness:
  "map_option (\<lambda>tp. (progress tp, status tp, completedAt tp, quizPassed tp))
     (find_progress (snd (update_progress 300 example_user 11 250 example_state)) 7 11)
     = Some (Num 100, Completed, Some 300, False)
   \<and> map_option (\<lambda>tp. (progress tp, status tp, completedAt tp, quizPassed tp))
     (find_progress (snd (update_progress 300 example_user 11 (- 4) example_state)) 7 11)
     = Some (Num 0, In_progress, None, False)"
proof -
  have tp: "find_progress example_state (uid example_user) 11 = Some (new_progress 100 7 11)"
    by (simp add: find_progress_example example_user_def)
  show ?thesis
    using update_progress_clamps [OF tp, of 300 250] update_progress_clamps [OF tp, of 300 "- 4"]
    by (auto simp: example_user_def new_progress_def)
qed

section \<open>Quiz eligibility\<close>

text \<open>
  For a training with a quiz whose \<open>maxAttempts\<close> is not 0 (the schema demands at least
  1): false when the training has video content and the video is not completed; the
  quiz's \<open>allowRetakes\<close> when the quiz is passed; otherwise true exactly when the number of
  attempts is below \<open>maxAttempts\<close>, 3 when unset.
\<close>

lemma canTakeQuiz_rule:
  assumes "quiz tr = Some qz" and "maxAttempts qz \<noteq> Some 0"
  shows "canTakeQuiz this (Some tr) =
           (if hasVideoContent tr \<and> \<not> videoCompleted this then False
            else if quizPassed this then allowRetakes qz
            else of_nat (length (quizAttempts this))
                   < (case maxAttempts qz of None \<Rightarrow> 3 | Some m \<Rightarrow> m))"
  using assms
  by (auto simp: canTakeQuiz_def max_attempts_or_3_def split: option.splits)

lemma canTakeQuiz_attempts_used:
  "canTakeQuiz
     ((new_progress 100 7 11)\<lparr>videoCompleted := True,
        quizAttempts := [example_attempt, example_attempt, example_attempt]\<rparr>)
     (Some example_training) = False"
  by (simp add: canTakeQuiz_def example_training_def example_quiz_def hasVideoContent_def
      truthy_string_def max_attempts_or_3_def new_progress_def)

text \<open>
  C6. The Finance training was given no quiz: its question list is empty, which is what
  the video route takes for "no quiz". For a progress document of that training with the
  video completed, nothing passed and no attempt, \<open>canTakeQuiz\<close> is true: the test
  \<open>!training.quiz\<close> does not see that there is no quiz.
\<close>

theorem canTakeQuiz_empty_quiz:
  "no_quiz_required finance_training
   \<and> canTakeQuiz ((new_progress 100 7 14)\<lparr>videoCompleted := True\<rparr>) (Some finance_training)"
  by (simp add: no_quiz_required_def canTakeQuiz_def finance_training_def hasVideoContent_def
      truthy_string_def max_attempts_or_3_def new_progress_def)

section \<open>Video progress\<close>

text \<open>The method \<open>updateVideoProgress\<close> keeps the larger watch time and never lowers the
  progress (for a total duration other than 0).\<close>

lemma js_mul_not_NaN: "n \<noteq> NaN \<Longrightarrow> c \<noteq> 0 \<Longrightarrow> js_mul n c \<noteq> NaN"
  by (cases n) (simp_all add: to_double_not_NaN)

lemma js_floor_not_NaN: "n \<noteq> NaN \<Longrightarrow> js_floor n \<noteq> NaN"
  by (cases n) simp_all

lemma js_max_ge: "n \<noteq> NaN \<Longrightarrow> js_ge (js_max (Num p) n) (Num p)"
  by (cases n) simp_all

lemma updateVideoProgress_fields_monotone:
  assumes "videoWatchTime this = Num w0" and "progress this = Num p0" and "totalDuration \<noteq> 0"
  shows "videoWatchTime (updateVideoProgress_fields now watchTime totalDuration this)
           = Num (max w0 watchTime)
         \<and> js_ge (progress (updateVideoProgress_fields now watchTime totalDuration this)) (Num p0)"
proof -
  have "js_div watchTime totalDuration \<noteq> NaN"
    using assms(3) by (simp add: js_div_def to_double_not_NaN)
  then have "js_mul (js_div watchTime totalDuration) 100 \<noteq> NaN"
    by (rule js_mul_not_NaN) simp
  then have "js_mul (js_mul (js_div watchTime totalDuration) 100) (1 / 2) \<noteq> NaN"
    by (rule js_mul_not_NaN) simp
  then have "js_floor (js_mul (js_mul (js_div watchTime totalDuration) 100) (1 / 2)) \<noteq> NaN"
    by (rule js_floor_not_NaN)
  then show ?thesis
    using assms(1,2)
    by (simp add: updateVideoProgress_fields_def Let_def js_max_ge)
qed

lemma watched_state_progress:
  "find_progress watched_state 7 11 =
     Some ((new_progress 100 7 11)\<lparr>videoWatchTime := Num 80, lastAccessedAt := 200,
        progress := Num 80\<rparr>)"
  by (simp add: watched_state_def video_progress_def store_progress_def Let_def example_user_def
      find_progress_example find_save_progress new_progress_def double_80_of_100)

text \<open>
  C5. After a report of 80 of 100 seconds the stored watch time and progress are both 80;
  a following report of 10 of 100 seconds through PUT /:id/video-progress stores watch
  time 10 and progress 10: both have decreased.
\<close>

theorem video_progress_regresses:
  "map_option videoWatchTime (find_progress watched_state 7 11) = Some (Num 80)
   \<and> map_option progress (find_progress watched_state 7 11) = Some (Num 80)
   \<and> map_option videoWatchTime
       (find_progress (snd (video_progress 300 example_user 11 10 100 False watched_state)) 7 11)
       = Some (Num 10)
   \<and> map_option progress
       (find_progress (snd (video_progress 300 example_user 11 10 100 False watched_state)) 7 11)
       = Some (Num 10)"
  by (simp add: watched_state_progress video_progress_def store_progress_def Let_def
      example_user_def find_save_progress new_progress_def double_10_of_100)

text \<open>The route completes a training without quiz when the report has the \<open>completed\<close>
  flag: it then stores \<open>videoCompleted\<close>, progress 100, the status \<open>completed\<close> and
  \<open>completedAt\<close>.\<close>

lemma video_progress_flagged:
  assumes "trainings s tid = Some tr" and "no_quiz_required tr"
  shows "\<exists>tp'. video_progress now usr tid watchTime totalDuration True s
                 = (Progress_ok tp', save_progress tp' s)
           \<and> find_progress (save_progress tp' s) (uid usr) tid = Some tp'
           \<and> videoCompleted tp' \<and> progress tp' = Num 100
           \<and> status tp' = Completed \<and> completedAt tp' = Some now"
proof -
  define prev where "prev = (case find_progress s (uid usr) tid of
      None \<Rightarrow> new_progress now (uid usr) tid | Some tp \<Rightarrow> tp)"
  have keys: "userId prev = uid usr" "trainingId prev = tid"
    unfolding prev_def
    by (auto simp: find_progress_def new_progress_def split: option.splits if_splits)
  show ?thesis
    using assms keys
    by (simp add: video_progress_def store_progress_def Let_def prev_def [symmetric]
        find_save_progress)
qed

lemma find_progress_absent: "find_progress example_state 7 14 = None"
  by (simp add: find_progress_def example_state_def)

text \<open>
  C7. The Finance training has no quiz. A report of 95 of 100 seconds watched, without
  the \<open>completed\<close> flag, is stored with \<open>videoCompleted\<close> false, progress 95, the status
  \<open>in_progress\<close> and no \<open>completedAt\<close>: the route does not apply the 90 percent rule. The
  method \<open>updateVideoProgress\<close>, which has that rule, sets \<open>videoCompleted\<close> on the same
  numbers and leaves the status \<open>in_progress\<close> too.
\<close>

theorem video_progress_ignores_threshold:
  "map_option videoCompleted
     (find_progress (snd (video_progress 200 example_user 14 95 100 False example_state)) 7 14)
     = Some False
   \<and> map_option progress
     (find_progress (snd (video_progress 200 example_user 14 95 100 False example_state)) 7 14)
     = Some (Num 95)
   \<and> map_option status
     (find_progress (snd (video_progress 200 example_user 14 95 100 False example_state)) 7 14)
     = Some In_progress
   \<and> map_option completedAt
     (find_progress (snd (video_progress 200 example_user 14 95 100 False example_state)) 7 14)
     = Some None
   \<and> no_quiz_required finance_training
   \<and> videoCompleted (updateVideoProgress_fields 200 95 100 (new_progress 100 7 14))
   \<and> status (updateVideoProgress_fields 200 95 100 (new_progress 100 7 14)) = In_progress
   \<and> completedAt (updateVideoProgress_fields 200 95 100 (new_progress 100 7 14)) = None"
  by (simp add: video_progress_def store_progress_def Let_def example_user_def
      find_progress_absent find_save_progress new_progress_def double_95_of_100
      no_quiz_required_def finance_training_def updateVideoProgress_fields_def)

section \<open>Access to a training\<close>

text \<open>With both properties present as arrays the test is the disjunction of the three
  conditions, and the route never changes the state. With \<open>departments\<close> undefined the
  test throws for every user, unless the training is for everybody.\<close>

lemma hasAccess_arrays:
  assumes "departments tr = Some ds" and "roles tr = Some rs"
  shows "hasAccess tr usr =
           Inr (targetAudience tr = ''all'' \<or> department usr \<in> set ds \<or> role usr \<in> set rs)"
  using assms by (auto simp: hasAccess_def array_includes_def split: bool.splits)

lemma hasAccess_undefined:
  assumes "departments tr = None" and "targetAudience tr \<noteq> ''all''"
  shows "hasAccess tr usr = Inl TypeError"
  using assms by (simp add: hasAccess_def array_includes_def)

lemma get_training_pure: "snd (get_training usr tid s) = s"
  by (simp add: get_training_def split: option.splits sum.splits bool.splits)

text \<open>
  C8. The Finance training of the seed script is not for everybody and lists the
  department Finance in \<open>specificDepartments\<close>. For an employee of that department the
  test throws, because \<open>training.departments\<close> is undefined, and GET /:id answers 500
  instead of the training.
\<close>

theorem get_training_finance_fails:
  "targetAudience finance_training = ''specific''
   \<and> department example_user \<in> set (specificDepartments finance_training)
   \<and> hasAccess finance_training example_user = Inl TypeError
   \<and> get_training example_user 14 example_state = (Server_error, example_state)"
  by (simp add: get_training_def hasAccess_def array_includes_def example_state_def
      finance_training_def example_user_def)

end
